theory Spec2Isabelle
  imports Complex_Main "HOL-Library.Multiset" "HOL-Library.AList" "HOL-Library.Sublist"
begin

section \<open>The token ledger of TokenManagement.tsx\<close>

subsection \<open>JavaScript numbers\<close>

text \<open>
  The amounts handled by the component are JavaScript numbers: a finite value, one of the
  two infinities, or NaN. The component never computes with them, it only compares
  them, so a finite value is represented by the rational it denotes (the two zeros are
  one value, as they are for every comparison and for the truthiness test).
\<close>

datatype number = NaN | NegInf | Fin rat | PosInf

text \<open>\<open>a < b\<close> on numbers: false as soon as one side is NaN.\<close>

fun js_lt :: "number \<Rightarrow> number \<Rightarrow> bool" where
  "js_lt NaN b = False"
| "js_lt a NaN = False"
| "js_lt a NegInf = False"
| "js_lt NegInf b = True"
| "js_lt PosInf b = False"
| "js_lt (Fin a) PosInf = True"
| "js_lt (Fin a) (Fin b) = (a < b)"

text \<open>\<open>a <= b\<close> on numbers.\<close>

fun js_le :: "number \<Rightarrow> number \<Rightarrow> bool" where
  "js_le NaN b = False"
| "js_le a NaN = False"
| "js_le NegInf b = True"
| "js_le a NegInf = False"
| "js_le a PosInf = True"
| "js_le PosInf b = False"
| "js_le (Fin a) (Fin b) = (a \<le> b)"

text \<open>\<open>!a\<close> on a number: true for NaN and for zero.\<close>

fun js_not :: "number \<Rightarrow> bool" where
  "js_not NaN = True"
| "js_not (Fin a) = (a = 0)"
| "js_not a = False"

subsection \<open>Data of the component\<close>

datatype transaction_type = earn | spend | stake | unstake

text \<open>
  The interface \<open>UserTokens\<close>. Its values are rows of the table \<open>user_tokens\<close> read
  from JSON, so the three numeric columns hold finite values.
\<close>

record UserTokens =
  tokens_id :: string
  balance :: rat
  total_earned :: rat
  total_spent :: rat

text \<open>The interface \<open>TokenTransaction\<close>; \<open>created_at\<close> is an instant of the database clock.\<close>

record TokenTransaction =
  tx_id :: string
  transaction_type :: transaction_type
  amount :: rat
  source :: string
  description :: "string option"
  created_at :: nat

text \<open>The authenticated user of \<open>useAuth\<close>; \<open>None\<close> stands for \<open>null\<close>.\<close>

datatype user = User (user_id: string)

text \<open>The body sent to the edge function \<open>update-user-tokens\<close>.\<close>

record invoke_body =
  p_user_id :: string
  p_amount :: number
  p_transaction_type :: transaction_type
  p_source :: string
  p_description :: string
  p_reference_id :: "string option"

text \<open>
  What \<open>mutationFn\<close> throws: an \<open>Error\<close> with a message of its own, or the error
  object that the remote call returned.
\<close>

datatype 'e thrown = Error string | FunctionsError 'e

subsection \<open>The mutation\<close>

text \<open>
  Lines 104 to 117: the call of the edge function and the re-throw of its error. The edge
  function is a parameter \<open>invoke\<close>: it reads and writes the state \<open>'s\<close> of the backend
  and answers with an error or with data.
\<close>

definition invoke_update ::
  "(invoke_body \<Rightarrow> 's \<Rightarrow> ('e + 'd) \<times> 's) \<Rightarrow> user \<Rightarrow> number \<Rightarrow> transaction_type
    \<Rightarrow> string \<Rightarrow> string \<Rightarrow> 's \<Rightarrow> ('e thrown + 'd) \<times> 's" where
  "invoke_update invoke u amnt typ src descr s =
     (case invoke \<lparr>p_user_id = user_id u, p_amount = amnt, p_transaction_type = typ,
                   p_source = src, p_description = descr, p_reference_id = None\<rparr> s of
        (Inl e, s') \<Rightarrow> (Inl (FunctionsError e), s')
      | (Inr d, s') \<Rightarrow> (Inr d, s'))"

text \<open>
  \<open>updateTokensMutation.mutationFn\<close>, lines 91 to 118. \<open>userTokens\<close> is the cached
  result of the account query: \<open>None\<close> while it is \<open>undefined\<close> or \<open>null\<close>. The
  callbacks \<open>onSuccess\<close> and \<open>onError\<close>, which refresh the two queries and show a
  toast, are left out.
\<close>

definition mutationFn ::
  "(invoke_body \<Rightarrow> 's \<Rightarrow> ('e + 'd) \<times> 's) \<Rightarrow> user option \<Rightarrow> UserTokens option
    \<Rightarrow> number \<Rightarrow> transaction_type \<Rightarrow> string \<Rightarrow> string \<Rightarrow> 's \<Rightarrow> ('e thrown + 'd) \<times> 's" where
  "mutationFn invoke usr userTokens amnt typ src descr s =
     (case usr of
        None \<Rightarrow> (Inl (Error ''Not authenticated''), s)
      | Some u \<Rightarrow>
          if (typ = spend \<or> typ = stake)
             \<and> (case userTokens of None \<Rightarrow> False
                 | Some ut \<Rightarrow> js_lt (Fin (balance ut)) amnt)
          then (Inl (Error ''Insufficient balance''), s)
          else invoke_update invoke u amnt typ src descr s)"

subsection \<open>The handlers\<close>

text \<open>A toast: title, description, and whether its variant is "destructive".\<close>

datatype toast = Toast (title: string) (toast_description: string) (destructive: bool)

text \<open>\<open>mutate\<close>: the mutation run on the variables a handler built.\<close>

type_synonym variables = "number \<times> transaction_type \<times> string \<times> string"

definition mutate ::
  "(invoke_body \<Rightarrow> 's \<Rightarrow> ('e + 'd) \<times> 's) \<Rightarrow> user option \<Rightarrow> UserTokens option
    \<Rightarrow> variables \<Rightarrow> 's \<Rightarrow> ('e thrown + 'd) \<times> 's" where
  "mutate invoke usr userTokens vars s =
     (case vars of (amnt, typ, src, descr) \<Rightarrow>
        mutationFn invoke usr userTokens amnt typ src descr s)"

text \<open>
  \<open>handleStake\<close>, lines 133 to 167. \<open>render\<close> writes a number into the template string
  of the description, \<open>mut\<close> is \<open>updateTokensMutation.mutate\<close>, and \<open>amnt\<close> is the
  number that \<open>parseFloat\<close> made of the input field. The handler ends with the toast of a
  refused input and the state untouched, or with what the mutation did. The toast of a
  success and the reset of the input field are left out.
\<close>

definition handleStake ::
  "(number \<Rightarrow> string) \<Rightarrow> (variables \<Rightarrow> 's \<Rightarrow> 'r \<times> 's) \<Rightarrow> number \<Rightarrow> 's
    \<Rightarrow> (toast + 'r) \<times> 's" where
  "handleStake render mut amnt s =
     (if js_not amnt \<or> js_le amnt (Fin 0)
      then (Inl (Toast ''Invalid Amount'' ''Please enter a valid stake amount'' True), s)
      else if js_lt amnt (Fin 100)
      then (Inl (Toast ''Minimum Stake Required''
                   ''Minimum stake amount is 100 VDO tokens'' True), s)
      else (case mut (amnt, stake, ''staking'', ''Staked '' @ render amnt @ '' VDO tokens'') s of
              (r, s') \<Rightarrow> (Inr r, s')))"

text \<open>\<open>handleClaimRewards\<close>, lines 169 to 185.\<close>

definition rewardAmount :: number where
  "rewardAmount = Fin 100"

definition handleClaimRewards :: "(variables \<Rightarrow> 's \<Rightarrow> 'r \<times> 's) \<Rightarrow> 's \<Rightarrow> 'r \<times> 's" where
  "handleClaimRewards mut s = mut (rewardAmount, earn, ''daily_reward'', ''Daily login reward'') s"

subsection \<open>The two tables and the queries\<close>

text \<open>
  The tables \<open>user_tokens\<close> and \<open>token_transactions\<close>, each a list of rows in
  insertion order, a row being the \<open>user_id\<close> column and the other columns.
\<close>

record database =
  user_tokens :: "(string \<times> UserTokens) list"
  token_transactions :: "(string \<times> TokenTransaction) list"

datatype postgrest_error = PostgrestError (code: string)

text \<open>
  What the component does not decide: whether a request fails before it reaches the
  tables, the identifiers the database generates for new rows, and its clock.
\<close>

record environment =
  select_fault :: "postgrest_error option"
  insert_fault :: "postgrest_error option"
  generated_id :: string
  generated_tx_id :: string
  now :: nat

text \<open>
  \<open>.select('*').eq('user_id', uid).single()\<close>: the one row of the user, and the error
  PGRST116 when the number of matching rows is not one.
\<close>

definition select_single ::
  "postgrest_error option \<Rightarrow> (string \<times> UserTokens) list \<Rightarrow> string
    \<Rightarrow> postgrest_error + UserTokens" where
  "select_single fault rows uid =
     (case fault of
        Some e \<Rightarrow> Inl e
      | None \<Rightarrow>
          (case filter (\<lambda>r. fst r = uid) rows of
             [r] \<Rightarrow> Inr (snd r)
           | _ \<Rightarrow> Inl (PostgrestError ''PGRST116'')))"

text \<open>\<open>.insert(row).select().single()\<close>: the row is appended and returned.\<close>

definition insert_single ::
  "postgrest_error option \<Rightarrow> string \<times> UserTokens \<Rightarrow> database
    \<Rightarrow> (postgrest_error + UserTokens) \<times> database" where
  "insert_single fault row db =
     (case fault of
        Some e \<Rightarrow> (Inl e, db)
      | None \<Rightarrow> (Inr (snd row), db\<lparr>user_tokens := user_tokens db @ [row]\<rparr>))"

text \<open>The \<open>queryFn\<close> of the account query, lines 39 to 69.\<close>

definition userTokens_queryFn ::
  "environment \<Rightarrow> user option \<Rightarrow> database
    \<Rightarrow> (postgrest_error + UserTokens option) \<times> database" where
  "userTokens_queryFn env usr db =
     (case usr of
        None \<Rightarrow> (Inr None, db)
      | Some u \<Rightarrow>
          (case select_single (select_fault env) (user_tokens db) (user_id u) of
             Inr data \<Rightarrow> (Inr (Some data), db)
           | Inl error \<Rightarrow>
               if code error = ''PGRST116''
               then (case insert_single (insert_fault env)
                            (user_id u,
                             \<lparr>tokens_id = generated_id env, balance = 1000,
                              total_earned = 1000, total_spent = 0\<rparr>) db of
                       (Inl insertError, db') \<Rightarrow> (Inl insertError, db')
                     | (Inr newData, db') \<Rightarrow> (Inr (Some newData), db'))
               else (Inl error, db)))"

text \<open>
  The query on \<open>token_transactions\<close>, lines 77 to 82: the rows of one user, ordered by
  \<open>created_at\<close>, at most \<open>limit\<close> of them.
\<close>

record select_query =
  eq_user_id :: string
  order_ascending :: bool
  limit :: nat

definition transactions_query :: "user \<Rightarrow> select_query" where
  "transactions_query u = \<lparr>eq_user_id = user_id u, order_ascending = False, limit = 20\<rparr>"

text \<open>
  The \<open>queryFn\<close> of the transaction query, lines 75 to 86; \<open>run\<close> is the database
  answering a query.
\<close>

definition transactions_queryFn ::
  "(select_query \<Rightarrow> postgrest_error + TokenTransaction list) \<Rightarrow> user option
    \<Rightarrow> postgrest_error + TokenTransaction list" where
  "transactions_queryFn run usr =
     (case usr of
        None \<Rightarrow> Inr []
      | Some u \<Rightarrow> run (transactions_query u))"

text \<open>
  What the database promises for such a query: the answer is the first \<open>limit\<close> rows of
  some arrangement of the user's rows that is ordered by \<open>created_at\<close>. The query names
  no second sort key, so rows with equal \<open>created_at\<close> may come in any order.
\<close>

definition ordered_by :: "bool \<Rightarrow> TokenTransaction list \<Rightarrow> bool" where
  "ordered_by asc ys =
     (if asc then sorted_wrt (\<lambda>a b. created_at a \<le> created_at b) ys
      else sorted_wrt (\<lambda>a b. created_at b \<le> created_at a) ys)"

definition rows_of :: "(string \<times> 'a) list \<Rightarrow> string \<Rightarrow> 'a list" where
  "rows_of rows uid = map snd (filter (\<lambda>r. fst r = uid) rows)"

definition arranges :: "database \<Rightarrow> select_query \<Rightarrow> TokenTransaction list \<Rightarrow> bool" where
  "arranges db q ys =
     (mset ys = mset (rows_of (token_transactions db) (eq_user_id q))
      \<and> ordered_by (order_ascending q) ys)"

definition answers :: "database \<Rightarrow> select_query \<Rightarrow> TokenTransaction list \<Rightarrow> bool" where
  "answers db q data = (\<exists>ys. arranges db q ys \<and> data = take (limit q) ys)"

text \<open>
  Rows with equal \<open>created_at\<close> keep their insertion order in \<open>data\<close>: for each timestamp
  of \<open>data\<close>, its rows come in the order they have in the table.
\<close>

definition ties_in_insertion_order ::
  "TokenTransaction list \<Rightarrow> TokenTransaction list \<Rightarrow> bool" where
  "ties_in_insertion_order rows data =
     (\<forall>t \<in> set (map created_at data).
        subseq (filter (\<lambda>x. created_at x = t) data) (filter (\<lambda>x. created_at x = t) rows))"

subsection \<open>The edge function\<close>

text \<open>
  Modelled from the spec: the edge function \<open>update-user-tokens\<close>, which \<open>mutationFn\<close>
  invokes and which is not among the sources. It is the transaction processor of
  section 4.3 of the specification: the five validation steps in their order, then the
  effect of the accepted type on the account and one appended ledger entry. The amount
  staked and not yet unstaked is replayed from the ledger, which the specification
  allows in place of a counter. A rejection returns the tables as they were; the account
  of a user without a row is the starting grant, stored when a proposal is accepted. The
  once-a-day rule of the daily reward, which the specification leaves open, is not part
  of it.
\<close>

datatype rejection = InvalidAmount | InsufficientBalance | BelowMinimumStake | ExceedsStakedAmount

text \<open>Modelled from the spec: the starting grant of a new account (section 3).\<close>

definition starting_grant :: "string \<Rightarrow> UserTokens" where
  "starting_grant i = \<lparr>tokens_id = i, balance = 1000, total_earned = 1000, total_spent = 0\<rparr>"

text \<open>Modelled from the spec: the policy minimum of a stake (section 4.3, step 4).\<close>

definition minimum_stake :: rat where
  "minimum_stake = 100"

text \<open>
  Modelled from the spec: the account the processor fetches in step 2, the stored one or,
  for a user without one, the starting grant.
\<close>

definition account_of :: "environment \<Rightarrow> database \<Rightarrow> string \<Rightarrow> UserTokens" where
  "account_of env db uid =
     (case map_of (user_tokens db) uid of
        Some a \<Rightarrow> a
      | None \<Rightarrow> starting_grant (generated_id env))"

text \<open>
  Modelled from the spec: what a ledger entry adds to the staked amount (last column of
  the effect table of section 4.3), and the staked amount as the replay of the ledger.
\<close>

fun staked_delta :: "TokenTransaction \<Rightarrow> rat" where
  "staked_delta t =
     (case transaction_type t of
        stake \<Rightarrow> amount t
      | unstake \<Rightarrow> - amount t
      | _ \<Rightarrow> 0)"

definition staked_amount :: "database \<Rightarrow> string \<Rightarrow> rat" where
  "staked_amount db uid = sum_list (map staked_delta (rows_of (token_transactions db) uid))"

text \<open>
  Modelled from the spec: the validation of section 4.3, steps 1, 3, 4 and 5 in this
  order, stopping at the first failure; an accepted amount is returned as its value.
\<close>

definition validate ::
  "UserTokens \<Rightarrow> rat \<Rightarrow> transaction_type \<Rightarrow> number \<Rightarrow> rejection + rat" where
  "validate account staked typ amnt =
     (case amnt of
        Fin a \<Rightarrow>
          if \<not> 0 < a then Inl InvalidAmount
          else if (typ = spend \<or> typ = stake) \<and> balance account < a
          then Inl InsufficientBalance
          else if typ = stake \<and> a < minimum_stake then Inl BelowMinimumStake
          else if typ = unstake \<and> staked < a then Inl ExceedsStakedAmount
          else Inr a
      | _ \<Rightarrow> Inl InvalidAmount)"

text \<open>Modelled from the spec: the effect table of section 4.3, one row per type.\<close>

fun apply_delta :: "transaction_type \<Rightarrow> rat \<Rightarrow> UserTokens \<Rightarrow> UserTokens" where
  "apply_delta earn a account =
     account\<lparr>balance := balance account + a, total_earned := total_earned account + a\<rparr>"
| "apply_delta spend a account =
     account\<lparr>balance := balance account - a, total_spent := total_spent account + a\<rparr>"
| "apply_delta stake a account =
     account\<lparr>balance := balance account - a, total_spent := total_spent account + a\<rparr>"
| "apply_delta unstake a account =
     account\<lparr>balance := balance account + a, total_spent := total_spent account - a\<rparr>"

text \<open>
  Modelled from the spec: the ledger entry of an accepted proposal, with the metadata of
  the request and the timestamp of the acceptance.
\<close>

definition ledger_entry :: "environment \<Rightarrow> invoke_body \<Rightarrow> rat \<Rightarrow> TokenTransaction" where
  "ledger_entry env body a =
     \<lparr>tx_id = generated_tx_id env, transaction_type = p_transaction_type body, amount = a,
      source = p_source body, description = Some (p_description body),
      created_at = now env\<rparr>"

text \<open>
  Modelled from the spec: the processor itself. A rejection answers with the reason and
  the tables as they were; an acceptance stores the new account, appends the ledger
  entry, and answers with the new account.
\<close>

definition update_user_tokens ::
  "environment \<Rightarrow> invoke_body \<Rightarrow> database \<Rightarrow> (rejection + UserTokens) \<times> database" where
  "update_user_tokens env body db =
     (let uid = p_user_id body; account = account_of env db uid in
      case validate account (staked_amount db uid) (p_transaction_type body) (p_amount body) of
        Inl r \<Rightarrow> (Inl r, db)
      | Inr a \<Rightarrow>
          (let account' = apply_delta (p_transaction_type body) a account in
           (Inr account',
            db\<lparr>user_tokens := AList.update uid account' (user_tokens db),
               token_transactions :=
                 token_transactions db @ [(uid, ledger_entry env body a)]\<rparr>)))"

text \<open>
  A proposal: \<open>mutationFn\<close> of the component, calling the edge function modelled
  above.
\<close>

definition propose ::
  "environment \<Rightarrow> user option \<Rightarrow> UserTokens option \<Rightarrow> number \<Rightarrow> transaction_type
    \<Rightarrow> string \<Rightarrow> string \<Rightarrow> database \<Rightarrow> (rejection thrown + UserTokens) \<times> database" where
  "propose env usr userTokens amnt typ src descr db =
     mutationFn (update_user_tokens env) usr userTokens amnt typ src descr db"

text \<open>
  Modelled from the spec: the amounts that pass step 1 of the validation, finite and
  strictly greater than 0.
\<close>

fun finite_positive :: "number \<Rightarrow> bool" where
  "finite_positive (Fin a) = (0 < a)"
| "finite_positive a = False"

subsection \<open>Example states\<close>

definition demo_env :: environment where
  "demo_env = \<lparr>select_fault = None, insert_fault = None, generated_id = ''t9'',
               generated_tx_id = ''x9'', now = 7\<rparr>"

definition demo_account :: UserTokens where
  "demo_account = \<lparr>tokens_id = ''t1'', balance = 1100, total_earned = 1100, total_spent = 0\<rparr>"

definition demo_db :: database where
  "demo_db = \<lparr>user_tokens = [(''u1'', demo_account)], token_transactions = []\<rparr>"

definition demo_tx_a :: TokenTransaction where
  "demo_tx_a = \<lparr>tx_id = ''a'', transaction_type = earn, amount = 100, source = ''daily_reward'',
                description = Some ''Daily login reward'', created_at = 5\<rparr>"

definition demo_tx_b :: TokenTransaction where
  "demo_tx_b = \<lparr>tx_id = ''b'', transaction_type = earn, amount = 100, source = ''daily_reward'',
                description = Some ''Daily login reward'', created_at = 5\<rparr>"

definition demo_ledger :: database where
  "demo_ledger = \<lparr>user_tokens = [(''u1'', demo_account)],
                  token_transactions = [(''u1'', demo_tx_a), (''u1'', demo_tx_b)]\<rparr>"

definition demo_tx_stake :: TokenTransaction where
  "demo_tx_stake = \<lparr>tx_id = ''s'', transaction_type = stake, amount = 200, source = ''staking'',
                    description = Some ''Staked 200 VDO tokens'', created_at = 6\<rparr>"

definition demo_staked :: database where
  "demo_staked =
     \<lparr>user_tokens = [(''u1'', \<lparr>tokens_id = ''t1'', balance = 900, total_earned = 1100,
                               total_spent = 200\<rparr>)],
      token_transactions = [(''u1'', demo_tx_stake)]\<rparr>"

section \<open>Auxiliary facts\<close>

text \<open>In an ordered list, what a limit cuts off comes after everything it keeps.\<close>

lemma cut_off_rows_come_later:
  assumes ord: "sorted_wrt P ys" and kept: "x \<in> set (take n ys)"
    and cut: "y \<in> set (drop n ys)"
  shows "P x y"
proof -
  from ord have "sorted_wrt P (take n ys @ drop n ys)" by simp
  with kept cut show ?thesis unfolding sorted_wrt_append by blast
qed

lemma answers_desc_properties:
  assumes "answers db q data" and "\<not> order_ascending q"
  shows "length data \<le> limit q"
    and "sorted_wrt (\<lambda>a b. created_at b \<le> created_at a) data"
    and "mset data \<subseteq># mset (rows_of (token_transactions db) (eq_user_id q))"
    and "\<forall>x \<in> set data. \<forall>y \<in># mset (rows_of (token_transactions db) (eq_user_id q)) - mset data.
            created_at y \<le> created_at x"
proof -
  from assms obtain ys where
    m: "mset ys = mset (rows_of (token_transactions db) (eq_user_id q))" and
    s: "sorted_wrt (\<lambda>a b. created_at b \<le> created_at a) ys" and
    d: "data = take (limit q) ys"
    by (auto simp: answers_def arranges_def ordered_by_def)
  show "length data \<le> limit q" using d by simp
  show "sorted_wrt (\<lambda>a b. created_at b \<le> created_at a) data"
    using s d by (simp add: sorted_wrt_take)
  have split: "mset ys = mset data + mset (drop (limit q) ys)"
    using d by (metis append_take_drop_id mset_append)
  show "mset data \<subseteq># mset (rows_of (token_transactions db) (eq_user_id q))"
    using split m by (metis mset_subset_eq_add_left)
  have rest: "mset (rows_of (token_transactions db) (eq_user_id q)) - mset data
                = mset (drop (limit q) ys)"
    using split m by (metis add_diff_cancel_left')
  show "\<forall>x \<in> set data. \<forall>y \<in># mset (rows_of (token_transactions db) (eq_user_id q)) - mset data.
            created_at y \<le> created_at x"
    unfolding rest using cut_off_rows_come_later [OF s] d by auto
qed

lemma demo_answers_ba:
  "answers demo_ledger (transactions_query (User ''u1'')) [demo_tx_b, demo_tx_a]"
  unfolding answers_def arranges_def
  by (rule exI [of _ "[demo_tx_b, demo_tx_a]"])
     (simp add: demo_ledger_def transactions_query_def rows_of_def ordered_by_def
        demo_tx_a_def demo_tx_b_def)

lemma demo_answers_ab:
  "answers demo_ledger (transactions_query (User ''u1'')) [demo_tx_a, demo_tx_b]"
  unfolding answers_def arranges_def
  by (rule exI [of _ "[demo_tx_a, demo_tx_b]"])
     (simp add: demo_ledger_def transactions_query_def rows_of_def ordered_by_def
        demo_tx_a_def demo_tx_b_def)

lemma update_user_tokens_rejects:
  "update_user_tokens env body db = (Inl r, db') \<Longrightarrow> db' = db"
  by (auto simp: update_user_tokens_def Let_def split: sum.splits)

text \<open>
  The mutation adds no effect of its own to a rejection: when the remote function leaves
  the state alone whenever it answers with an error, so does the mutation.
\<close>

lemma mutationFn_rejects:
  assumes "\<And>body s r s'. invoke body s = (Inl r, s') \<Longrightarrow> s' = s"
    and "mutationFn invoke usr ut amnt typ src descr s = (Inl e, s')"
  shows "s' = s"
  using assms(2) assms(1)
  by (auto simp: mutationFn_def invoke_update_def
      split: option.splits if_splits prod.splits sum.splits)

lemma propose_rejects: "propose env usr ut amnt typ src descr db = (Inl e, db') \<Longrightarrow> db' = db"
  unfolding propose_def
  by (erule mutationFn_rejects [rotated]) (rule update_user_tokens_rejects)

lemma validate_invalid:
  "\<not> finite_positive amnt \<Longrightarrow> validate account staked typ amnt = Inl InvalidAmount"
  by (cases amnt) (simp_all add: validate_def)

lemma update_user_tokens_invalid:
  "\<not> finite_positive (p_amount body) \<Longrightarrow>
     update_user_tokens env body db = (Inl InvalidAmount, db)"
  by (simp add: update_user_tokens_def Let_def validate_invalid)

lemma staked_amount_append:
  "staked_amount (db\<lparr>user_tokens := ts,
       token_transactions := token_transactions db @ [(uid, t)]\<rparr>) uid
     = staked_amount db uid + staked_delta t"
  by (simp add: staked_amount_def rows_of_def)

lemma demo_staked_amount: "staked_amount demo_staked ''u1'' = 200"
  by (simp add: staked_amount_def rows_of_def demo_staked_def demo_tx_stake_def)

lemma demo_staked_account:
  "account_of demo_env demo_staked ''u1''
     = \<lparr>tokens_id = ''t1'', balance = 900, total_earned = 1100, total_spent = 200\<rparr>"
  by (simp add: account_of_def demo_staked_def)

text \<open>
  What the mutation itself does not check: an unstake always goes to the remote function,
  and so does a stake of any amount that the balance check lets pass. The minimum of a
  stake and the staked amount are checked, if at all, behind the remote call.
\<close>

lemma mutationFn_unstake_unchecked:
  "mutationFn invoke (Some u) ut amnt unstake src descr s
     = invoke_update invoke u amnt unstake src descr s"
  by (simp add: mutationFn_def)

lemma mutationFn_stake_no_minimum:
  "\<not> (\<exists>a. ut = Some a \<and> js_lt (Fin (balance a)) amnt) \<Longrightarrow>
     mutationFn invoke (Some u) ut amnt stake src descr s
       = invoke_update invoke u amnt stake src descr s"
  by (auto simp: mutationFn_def split: option.splits)

section \<open>The balance check of the mutation\<close>

text \<open>
  C1. With an authenticated user and a loaded account snapshot, a proposal of type spend
  or stake whose amount exceeds the snapshot's balance is rejected with the error
  "Insufficient balance", and the remote function is not called; a spend or stake whose
  amount does not exceed the balance passes the check and goes to the remote call; a
  proposal of type earn or unstake goes to the remote call whatever its amount. The
  remote call itself never produces the error of the check.
\<close>

theorem mutationFn_balance_check:
  "((typ = spend \<or> typ = stake) \<and> js_lt (Fin (balance ut)) amnt \<longrightarrow>
      mutationFn invoke (Some u) (Some ut) amnt typ src descr s
        = (Inl (Error ''Insufficient balance''), s))
   \<and> ((typ = spend \<or> typ = stake) \<and> \<not> js_lt (Fin (balance ut)) amnt \<longrightarrow>
      mutationFn invoke (Some u) (Some ut) amnt typ src descr s
        = invoke_update invoke u amnt typ src descr s)
   \<and> (typ = earn \<or> typ = unstake \<longrightarrow>
      mutationFn invoke (Some u) (Some ut) amnt typ src descr s
        = invoke_update invoke u amnt typ src descr s)
   \<and> (\<forall>m. fst (invoke_update invoke u amnt typ src descr s) \<noteq> Inl (Error m))"
  by (auto simp: mutationFn_def invoke_update_def split: prod.splits sum.splits)

theorem mutationFn_balance_check_witness:
  "js_lt (Fin 1000) (Fin 2000)
   \<and> mutationFn (\<lambda>b s. (Inr () :: unit + unit, s)) (Some (User ''u1''))
       (Some \<lparr>tokens_id = ''t1'', balance = 1000, total_earned = 1000, total_spent = 0\<rparr>)
       (Fin 2000) spend ''purchase'' ''a purchase'' (0::nat)
     = (Inl (Error ''Insufficient balance''), 0)"
  using mutationFn_balance_check [of spend
      "\<lparr>tokens_id = ''t1'', balance = 1000, total_earned = 1000, total_spent = 0\<rparr>"
      "Fin 2000" "\<lambda>b s. (Inr () :: unit + unit, s)" "User ''u1''" "''purchase''"
      "''a purchase''" "0::nat"]
  by simp

text \<open>
  The account of user u1 is stored with balance 1100, but no snapshot of it is loaded: a
  spend of 5000, which exceeds that balance, is not rejected by the mutation. The check
  is skipped, and with a remote function that answers with data the mutation succeeds.
\<close>

theorem balance_check_skipped_counterexample:
  "rows_of (user_tokens demo_db) ''u1'' = [demo_account]
   \<and> js_lt (Fin (balance demo_account)) (Fin 5000)
   \<and> mutationFn (\<lambda>b s. (Inr (p_amount b) :: unit + number, s)) (Some (User ''u1'')) None
       (Fin 5000) spend ''purchase'' ''a purchase'' demo_db
     = (Inr (Fin 5000), demo_db)"
  by (simp add: rows_of_def demo_db_def demo_account_def mutationFn_def invoke_update_def)

text \<open>
  C10. While no account snapshot is loaded, a proposal of type spend or stake by an
  authenticated user goes to the remote call without any balance check, whatever its
  amount: the outcome is that of the remote call, never the error of the check.
\<close>

theorem mutationFn_without_snapshot:
  "typ = spend \<or> typ = stake \<Longrightarrow>
     mutationFn invoke (Some u) None amnt typ src descr s
       = invoke_update invoke u amnt typ src descr s
     \<and> (\<forall>m. fst (mutationFn invoke (Some u) None amnt typ src descr s) \<noteq> Inl (Error m))"
  by (auto simp: mutationFn_def invoke_update_def split: prod.splits sum.splits)

theorem mutationFn_without_snapshot_witness:
  "(spend = spend \<or> spend = stake)
   \<and> mutationFn (\<lambda>b s. (Inr (p_amount b) :: unit + number, Suc s)) (Some (User ''u1'')) None
       (Fin 5000) spend ''purchase'' ''a purchase'' (0::nat)
     = (Inr (Fin 5000), 1)"
  using mutationFn_without_snapshot [of spend
      "\<lambda>b s. (Inr (p_amount b) :: unit + number, Suc s)"
      "User ''u1''" "Fin 5000" "''purchase''" "''a purchase''" "0::nat"]
  by (simp add: invoke_update_def)

section \<open>Reading the account\<close>

text \<open>
  C2. When the requests reach the tables, the account query of a user with exactly one
  row returns that row and leaves the tables as they are; for a user without a row it
  appends one row with balance 1000, total_earned 1000 and total_spent 0, returns that
  row, and the user then has exactly this one row.
\<close>

theorem userTokens_queryFn_get_or_create:
  assumes "select_fault env = None" and "insert_fault env = None"
  shows "(filter (\<lambda>r. fst r = user_id u) (user_tokens db) = [r] \<longrightarrow>
            userTokens_queryFn env (Some u) db = (Inr (Some (snd r)), db))
       \<and> (filter (\<lambda>r. fst r = user_id u) (user_tokens db) = [] \<longrightarrow>
            (let a = \<lparr>tokens_id = generated_id env, balance = 1000,
                      total_earned = 1000, total_spent = 0\<rparr>;
                 db' = db\<lparr>user_tokens := user_tokens db @ [(user_id u, a)]\<rparr>
             in userTokens_queryFn env (Some u) db = (Inr (Some a), db')
                \<and> rows_of (user_tokens db') (user_id u) = [a]))"
  using assms
  by (simp add: userTokens_queryFn_def select_single_def insert_single_def rows_of_def Let_def)

theorem userTokens_queryFn_get_or_create_witness:
  "select_fault demo_env = None \<and> insert_fault demo_env = None
   \<and> userTokens_queryFn demo_env (Some (User ''u1'')) demo_db
       = (Inr (Some demo_account), demo_db)
   \<and> userTokens_queryFn demo_env (Some (User ''u2'')) demo_db
       = (Inr (Some \<lparr>tokens_id = ''t9'', balance = 1000, total_earned = 1000,
                      total_spent = 0\<rparr>),
          \<lparr>user_tokens = [(''u1'', demo_account),
              (''u2'', \<lparr>tokens_id = ''t9'', balance = 1000, total_earned = 1000,
                        total_spent = 0\<rparr>)],
           token_transactions = []\<rparr>)"
  using userTokens_queryFn_get_or_create [of demo_env "User ''u1''" demo_db
      "(''u1'', demo_account)"]
    userTokens_queryFn_get_or_create [of demo_env "User ''u2''" demo_db]
  by (simp add: demo_env_def demo_db_def Let_def)

section \<open>Recent transactions\<close>

text \<open>
  C7. Whatever rows the database answers to the query of the component, the query
  function returns them, and they are at most 20, ordered by created_at descending, rows
  of the user, and the most recent ones: no row of the user left out is more recent than
  a row returned. The order among rows with equal created_at is left to the database.
\<close>

theorem transactions_queryFn_recent:
  assumes "run (transactions_query u) = Inr data"
    and "answers db (transactions_query u) data"
  shows "transactions_queryFn run (Some u) = Inr data
       \<and> length data \<le> 20
       \<and> sorted_wrt (\<lambda>a b. created_at b \<le> created_at a) data
       \<and> mset data \<subseteq># mset (rows_of (token_transactions db) (user_id u))
       \<and> (\<forall>x \<in> set data.
            \<forall>y \<in># mset (rows_of (token_transactions db) (user_id u)) - mset data.
              created_at y \<le> created_at x)"
proof -
  have q: "\<not> order_ascending (transactions_query u)" "limit (transactions_query u) = 20"
    "eq_user_id (transactions_query u) = user_id u"
    by (simp_all add: transactions_query_def)
  show ?thesis
    using answers_desc_properties [OF assms(2) q(1)] assms(1)
    by (simp add: q transactions_queryFn_def)
qed

theorem transactions_queryFn_recent_witness:
  "answers demo_ledger (transactions_query (User ''u1'')) [demo_tx_a, demo_tx_b]
   \<and> transactions_queryFn (\<lambda>q. Inr [demo_tx_a, demo_tx_b]) (Some (User ''u1''))
       = Inr [demo_tx_a, demo_tx_b]
   \<and> length [demo_tx_a, demo_tx_b] \<le> 20"
  using transactions_queryFn_recent [of "\<lambda>q. Inr [demo_tx_a, demo_tx_b]" "User ''u1''"
      "[demo_tx_a, demo_tx_b]" demo_ledger, OF refl demo_answers_ab] demo_answers_ab
  by simp

text \<open>
  Two rows a and b of one user, inserted in this order with the same created_at: the
  answer b, a is one the query allows, the query function returns it, and it does not
  keep the insertion order of the two rows.
\<close>

theorem ties_order_counterexample:
  "answers demo_ledger (transactions_query (User ''u1'')) [demo_tx_b, demo_tx_a]
   \<and> transactions_queryFn (\<lambda>q. Inr [demo_tx_b, demo_tx_a]) (Some (User ''u1''))
       = Inr [demo_tx_b, demo_tx_a]
   \<and> \<not> ties_in_insertion_order (rows_of (token_transactions demo_ledger) ''u1'')
         [demo_tx_b, demo_tx_a]"
  using demo_answers_ba
  by (simp add: transactions_queryFn_def ties_in_insertion_order_def rows_of_def demo_ledger_def
        demo_tx_a_def demo_tx_b_def)

section \<open>The processor behind the mutation\<close>

text \<open>
  C5. A proposal of an authenticated user whose amount is not a finite number above 0
  is rejected with the tables unchanged, whatever its type. The reason is InvalidAmount,
  except for a spend or stake with a loaded snapshot whose balance is below the amount:
  the balance check of the mutation runs before the amount check and rejects it with
  "Insufficient balance". The stake handler refuses such an amount first of all, with
  "Invalid Amount" and without calling the mutation, unless the amount is Infinity.
\<close>

theorem invalid_amount_rejection:
  assumes "\<not> finite_positive amnt"
  shows "propose env (Some u) ut amnt typ src descr db =
     (if (typ = spend \<or> typ = stake) \<and> (\<exists>s. ut = Some s \<and> js_lt (Fin (balance s)) amnt)
      then (Inl (Error ''Insufficient balance''), db)
      else (Inl (FunctionsError InvalidAmount), db))
   \<and> (amnt \<noteq> PosInf \<longrightarrow>
        handleStake render mut amnt db
          = (Inl (Toast ''Invalid Amount'' ''Please enter a valid stake amount'' True), db))"
proof
  show "propose env (Some u) ut amnt typ src descr db =
     (if (typ = spend \<or> typ = stake) \<and> (\<exists>s. ut = Some s \<and> js_lt (Fin (balance s)) amnt)
      then (Inl (Error ''Insufficient balance''), db)
      else (Inl (FunctionsError InvalidAmount), db))"
    using assms
    by (auto simp: propose_def mutationFn_def invoke_update_def update_user_tokens_invalid
        split: option.splits)
  show "amnt \<noteq> PosInf \<longrightarrow>
        handleStake render mut amnt db
          = (Inl (Toast ''Invalid Amount'' ''Please enter a valid stake amount'' True), db)"
    using assms by (cases amnt) (simp_all add: handleStake_def)
qed

theorem invalid_amount_rejection_witness:
  "\<not> finite_positive (Fin (- 5))
   \<and> propose demo_env (Some (User ''u1'')) (Some demo_account) (Fin (- 5)) spend ''purchase''
        ''a purchase'' demo_db
      = (Inl (FunctionsError InvalidAmount), demo_db)"
  using invalid_amount_rejection [of "Fin (- 5)" demo_env "User ''u1''" "Some demo_account"
      spend "''purchase''" "''a purchase''" demo_db "\<lambda>n. ''-5''" "\<lambda>v s. ((), s)"]
  by (simp add: demo_account_def)

text \<open>
  A stake of the amount Infinity against a loaded snapshot of balance 1100: the amount is
  not finite, and the rejection is "Insufficient balance", not InvalidAmount.
\<close>

theorem amount_check_order_counterexample:
  "\<not> finite_positive PosInf
   \<and> propose demo_env (Some (User ''u1'')) (Some demo_account) PosInf stake ''staking''
        ''Staked Infinity VDO tokens'' demo_db
      = (Inl (Error ''Insufficient balance''), demo_db)"
  by (simp add: propose_def mutationFn_def)

text \<open>
  C3. A stake below 100 is never accepted: the proposal of an authenticated user ends in
  a rejection with the tables unchanged, and so does the handler. When the amount is
  above 0 the handler refuses it with "Minimum Stake Required"; when it is also within
  the balance of the account, and of the snapshot if one is loaded, the proposal sent
  without the handler is rejected with BelowMinimumStake.
\<close>

theorem minimum_stake_enforced:
  assumes "js_lt amnt (Fin 100)"
  shows "(\<exists>r. propose env (Some u) ut amnt stake src descr db = (Inl r, db))
       \<and> (\<exists>t. handleStake render mut amnt db = (Inl t, db))
       \<and> (\<forall>a. amnt = Fin a \<and> 0 < a \<longrightarrow>
            handleStake render mut amnt db
              = (Inl (Toast ''Minimum Stake Required''
                       ''Minimum stake amount is 100 VDO tokens'' True), db))
       \<and> (\<forall>a. amnt = Fin a \<and> 0 < a \<and> a \<le> balance (account_of env db (user_id u))
               \<and> (\<forall>s. ut = Some s \<longrightarrow> a \<le> balance s) \<longrightarrow>
            propose env (Some u) ut amnt stake src descr db
              = (Inl (FunctionsError BelowMinimumStake), db))"
proof (cases amnt)
  case (Fin a)
  with assms have a: "a < 100" by simp
  show ?thesis
    using a unfolding Fin
    by (auto simp: propose_def mutationFn_def invoke_update_def update_user_tokens_def Let_def
        validate_def minimum_stake_def handleStake_def split: option.splits)
next
  case NegInf
  then show ?thesis
    by (auto simp: propose_def mutationFn_def invoke_update_def update_user_tokens_def Let_def
        validate_def handleStake_def split: option.splits)
qed (use assms in simp_all)

theorem minimum_stake_enforced_witness:
  "js_lt (Fin 50) (Fin 100)
   \<and> propose demo_env (Some (User ''u1'')) (Some demo_account) (Fin 50) stake ''staking''
        ''Staked 50 VDO tokens'' demo_db
      = (Inl (FunctionsError BelowMinimumStake), demo_db)"
  using minimum_stake_enforced [of "Fin 50" demo_env "User ''u1''" "Some demo_account"
      "''staking''" "''Staked 50 VDO tokens''" demo_db "\<lambda>n. ''50''" "\<lambda>v s. ((), s)"]
  by (simp add: account_of_def demo_db_def demo_account_def)

text \<open>
  C4. An unstake of a finite amount above 0 by an authenticated user is rejected with
  ExceedsStakedAmount, the tables unchanged, when the amount exceeds what the user has
  staked and not yet unstaked; otherwise it is accepted, the account gets the amount
  back and the staked amount goes down by it.
\<close>

theorem unstake_validation:
  assumes "0 < a"
  shows "(staked_amount db (user_id u) < a \<longrightarrow>
            propose env (Some u) ut (Fin a) unstake src descr db
              = (Inl (FunctionsError ExceedsStakedAmount), db))
       \<and> (a \<le> staked_amount db (user_id u) \<longrightarrow>
            (\<exists>db'. propose env (Some u) ut (Fin a) unstake src descr db
                     = (Inr (apply_delta unstake a (account_of env db (user_id u))), db')
                  \<and> staked_amount db' (user_id u) = staked_amount db (user_id u) - a))"
  using assms
  by (auto simp: propose_def mutationFn_def invoke_update_def update_user_tokens_def Let_def
      validate_def staked_amount_append ledger_entry_def)

theorem unstake_validation_witness:
  "(0::rat) < 300 \<and> staked_amount demo_staked ''u1'' < 300
   \<and> propose demo_env (Some (User ''u1'')) None (Fin 300) unstake ''staking'' ''unstake''
       demo_staked
       = (Inl (FunctionsError ExceedsStakedAmount), demo_staked)
   \<and> (0::rat) < 200 \<and> 200 \<le> staked_amount demo_staked ''u1''
   \<and> fst (propose demo_env (Some (User ''u1'')) None (Fin 200) unstake ''staking'' ''unstake''
       demo_staked)
       = Inr \<lparr>tokens_id = ''t1'', balance = 1100, total_earned = 1100, total_spent = 0\<rparr>
   \<and> staked_amount (snd (propose demo_env (Some (User ''u1'')) None (Fin 200) unstake
       ''staking'' ''unstake'' demo_staked)) ''u1'' = 0"
  using unstake_validation [of 300 demo_staked "User ''u1''" demo_env None "''staking''"
      "''unstake''"]
    unstake_validation [of 200 demo_staked "User ''u1''" demo_env None "''staking''"
      "''unstake''"]
  by (auto simp: demo_staked_amount demo_staked_account)

text \<open>
  C6. A rejected proposal leaves the two tables exactly as they were, whatever the
  reason of the rejection: a missing user, the balance check of the mutation, or a
  rejection by the processor. The same holds for a stake that the handler refuses or
  that is rejected after the handler let it pass, and for a rejected reward claim.
\<close>

theorem rejection_changes_nothing:
  "(propose env usr ut amnt typ src descr db = (Inl e, db') \<longrightarrow> db' = db)
   \<and> (handleStake render (mutate (update_user_tokens env) usr ut) amnt db = (Inl t, db')
        \<longrightarrow> db' = db)
   \<and> (handleStake render (mutate (update_user_tokens env) usr ut) amnt db = (Inr (Inl e), db')
        \<longrightarrow> db' = db)
   \<and> (handleClaimRewards (mutate (update_user_tokens env) usr ut) db = (Inl e, db')
        \<longrightarrow> db' = db)"
proof (intro conjI impI)
  assume "propose env usr ut amnt typ src descr db = (Inl e, db')"
  then show "db' = db" by (rule propose_rejects)
next
  assume "handleStake render (mutate (update_user_tokens env) usr ut) amnt db = (Inl t, db')"
  then show "db' = db"
    by (auto simp: handleStake_def split: if_splits prod.splits)
next
  assume "handleStake render (mutate (update_user_tokens env) usr ut) amnt db
            = (Inr (Inl e), db')"
  then have "propose env usr ut amnt stake ''staking''
      (''Staked '' @ render amnt @ '' VDO tokens'') db = (Inl e, db')"
    by (auto simp: handleStake_def mutate_def propose_def split: if_splits prod.splits)
  then show "db' = db" by (rule propose_rejects)
next
  assume "handleClaimRewards (mutate (update_user_tokens env) usr ut) db = (Inl e, db')"
  then have "propose env usr ut rewardAmount earn ''daily_reward'' ''Daily login reward'' db
      = (Inl e, db')"
    by (simp add: handleClaimRewards_def mutate_def propose_def)
  then show "db' = db" by (rule propose_rejects)
qed

theorem rejection_changes_nothing_witness:
  "propose demo_env (Some (User ''u1'')) None (Fin 2000) spend ''purchase'' ''a purchase'' demo_db
     = (Inl (FunctionsError InsufficientBalance), demo_db)"
proof -
  obtain r d where p: "propose demo_env (Some (User ''u1'')) None (Fin 2000) spend ''purchase''
      ''a purchase'' demo_db = (r, d)"
    by (cases "propose demo_env (Some (User ''u1'')) None (Fin 2000) spend ''purchase''
      ''a purchase'' demo_db")
  have r: "r = Inl (FunctionsError InsufficientBalance)"
    using p
    by (simp add: propose_def mutationFn_def invoke_update_def update_user_tokens_def Let_def
        validate_def account_of_def demo_db_def demo_account_def split: prod.splits)
  from rejection_changes_nothing [of demo_env "Some (User ''u1'')" None "Fin 2000" spend
      "''purchase''" "''a purchase''" demo_db "FunctionsError InsufficientBalance" d] p r
  have "d = demo_db" by simp
  with p r show ?thesis by simp
qed

section \<open>The daily reward\<close>

text \<open>
  C8. The reward handler hands exactly the variables amount 100, type earn, source
  daily_reward to the mutation, which passes them to the remote function unchecked. For
  an authenticated user the claim is accepted: balance and total_earned of the account
  grow by 100, total_spent stays, the new account is stored, and one earn entry of
  amount 100 with source daily_reward is appended to the ledger.
\<close>

theorem daily_reward_claim:
  "handleClaimRewards mut s = mut (Fin 100, earn, ''daily_reward'', ''Daily login reward'') s
   \<and> handleClaimRewards (mutate invoke (Some u) ut) s'
       = invoke_update invoke u (Fin 100) earn ''daily_reward'' ''Daily login reward'' s'
   \<and> (let uid = user_id u;
           acct = account_of env db uid;
           acct' = acct\<lparr>balance := balance acct + 100, total_earned := total_earned acct + 100\<rparr>;
           db' = db\<lparr>user_tokens := AList.update uid acct' (user_tokens db),
                    token_transactions := token_transactions db @
                      [(uid, \<lparr>tx_id = generated_tx_id env, transaction_type = earn, amount = 100,
                              source = ''daily_reward'',
                              description = Some ''Daily login reward'',
                              created_at = now env\<rparr>)]\<rparr>
       in handleClaimRewards (mutate (update_user_tokens env) (Some u) ut) db = (Inr acct', db')
          \<and> total_spent acct' = total_spent acct
          \<and> map_of (user_tokens db') uid = Some acct')"
  by (simp add: handleClaimRewards_def rewardAmount_def mutate_def mutationFn_def
      invoke_update_def update_user_tokens_def Let_def validate_def ledger_entry_def
      update_conv')

theorem daily_reward_claim_witness:
  "handleClaimRewards (mutate (update_user_tokens demo_env) (Some (User ''u2'')) None) demo_db
     = (Inr \<lparr>tokens_id = ''t9'', balance = 1100, total_earned = 1100, total_spent = 0\<rparr>,
        \<lparr>user_tokens = [(''u1'', demo_account),
            (''u2'', \<lparr>tokens_id = ''t9'', balance = 1100, total_earned = 1100,
                      total_spent = 0\<rparr>)],
         token_transactions =
           [(''u2'', \<lparr>tx_id = ''x9'', transaction_type = earn, amount = 100,
                     source = ''daily_reward'', description = Some ''Daily login reward'',
                     created_at = 7\<rparr>)]\<rparr>)"
  using daily_reward_claim [of "\<lambda>v s. (v, s)" "0::nat" "\<lambda>b s. (Inr () :: unit + unit, s)"
      "User ''u2''" None "0::nat" demo_env demo_db]
  by (simp add: Let_def account_of_def demo_db_def demo_env_def starting_grant_def)

end
